theory Spec2Isabelle
  imports Complex_Main
begin

section \<open>Thumbnail download and caching (home/src/download/thumbnails.py)\<close>

text \<open>
  A shallow embedding of the classes \<^verbatim>\<open>ThumbManagerBase\<close>, \<^verbatim>\<open>ThumbManager\<close>,
  \<^verbatim>\<open>ValidatorCallback\<close> and \<^verbatim>\<open>ThumbValidator\<close>. Everything the Python does
  besides returning a value is explicit: the network, the file system, the sleeps, the
  printed lines and the mutable field \<^verbatim>\<open>item_type\<close> are threaded through as state, and
  every exception is a value.
\<close>

subsection \<open>Exceptions, images, HTTP\<close>

datatype py_error =
    IndexError
  | KeyError string
  | AttributeError
  | ZeroDivisionError
  | ValueError
  | TypeError
  | FileNotFoundError string
  | FileExistsError string
  | IsADirectoryError string

text \<open>
  A decoded image is its size and its content. The content is symbolic: a source bitmap
  named by a number, or the result of PIL's \<^verbatim>\<open>crop\<close> (with the integer box) or
  \<^verbatim>\<open>convert("RGB")\<close> applied to a content.
\<close>

datatype img_data =
    Pixels nat
  | Cropped int int int int img_data
  | RGB img_data

datatype image = Image (img_width: nat) (img_height: nat) (img_pixels: img_data)

text \<open>
  One call of \<^verbatim>\<open>requests.get(url, stream=True, timeout=5)\<close> either raises a
  \<^verbatim>\<open>RequestException\<close> (timeout, connection error) or gives a response: its status
  code and what \<^verbatim>\<open>Image.open(response.raw)\<close> makes of the body, \<open>None\<close> standing for
  \<^verbatim>\<open>UnidentifiedImageError\<close>.
\<close>

datatype http_outcome =
    RequestException
  | Response (status_code: nat) (raw: "image option")

text \<open>\<^verbatim>\<open>response.ok\<close> of the requests library: the status is not in 400..599.\<close>

definition response_ok :: "nat \<Rightarrow> bool" where
  "response_ok status = (status < 400 \<or> 600 \<le> status)"

text \<open>What \<^verbatim>\<open>download_raw\<close> returns: an image, or the value \<^verbatim>\<open>False\<close>.\<close>

datatype fetched = Img image | PyFalse

subsection \<open>Configuration, the outside world, the handler object\<close>

text \<open>
  \<^verbatim>\<open>CONFIG["application"]\<close> gives \<open>cache_dir\<close> and \<open>app_root\<close>. \<open>http_get url n\<close> is
  the outcome of a request to \<open>url\<close> when \<open>n\<close> requests were made before it.
\<close>

record env =
  cache_dir :: string
  app_root :: string
  http_get :: "string \<Rightarrow> nat \<Rightarrow> http_outcome"

text \<open>
  The mutable world: the URLs requested so far (oldest first), the arguments of the calls
  of \<^verbatim>\<open>sleep\<close>, the printed lines, and the file system (the directories that exist and
  the image files).
\<close>

record world =
  requests :: "string list"
  sleeps :: "nat list"
  stdout :: "string list"
  dirs :: "string set"
  files :: "string \<rightharpoonup> image"

text \<open>
  The fields of a \<^verbatim>\<open>ThumbManager\<close>. \<open>fallback\<close> is \<open>None\<close> for the default
  \<^verbatim>\<open>False\<close> and \<open>Some path\<close> for a path.
\<close>

record thumb_manager =
  item_id :: string
  item_type :: string
  fallback :: "string option"

text \<open>\<^verbatim>\<open>ThumbManager(item_id)\<close>: the defaults of \<^verbatim>\<open>__init__\<close>.\<close>

definition ThumbManager :: "string \<Rightarrow> thumb_manager" where
  "ThumbManager i = \<lparr>item_id = i, item_type = ''video'', fallback = None\<rparr>"

text \<open>Python's truth value of an optional string: \<^verbatim>\<open>None\<close>, \<^verbatim>\<open>False\<close> and \<^verbatim>\<open>""\<close> are false.\<close>

fun truthy :: "string option \<Rightarrow> bool" where
  "truthy None = False"
| "truthy (Some s) = (s \<noteq> [])"

subsection \<open>Paths\<close>

text \<open>\<^verbatim>\<open>os.path.join(a, b)\<close> of posixpath: an absolute \<open>b\<close> replaces \<open>a\<close>.\<close>

definition os_path_join :: "string \<Rightarrow> string \<Rightarrow> string" where
  "os_path_join a b =
     (if b \<noteq> [] \<and> hd b = CHR ''/'' then b
      else if a = [] \<or> last a = CHR ''/'' then a @ b
      else a @ ''/'' @ b)"

text \<open>
  \<^verbatim>\<open>os.path.dirname(p)\<close> of posixpath: the part up to the last slash, without its
  trailing slashes unless it consists of slashes only.
\<close>

definition os_path_dirname :: "string \<Rightarrow> string" where
  "os_path_dirname p =
     (let head = rev (dropWhile (\<lambda>c. c \<noteq> CHR ''/'') (rev p))
      in if head \<noteq> [] \<and> (\<exists>c \<in> set head. c \<noteq> CHR ''/'')
         then rev (dropWhile (\<lambda>c. c = CHR ''/'') (rev head))
         else head)"

text \<open>
  \<^verbatim>\<open>str.lower()\<close> on one character, for the code points below 256: the letters A to Z
  and the capital letters of Latin-1 (U+00C0 to U+00DE without the multiplication sign)
  move up by 32.
\<close>

definition char_lower :: "char \<Rightarrow> char" where
  "char_lower c =
     (let n = (of_char c :: nat)
      in if (65 \<le> n \<and> n \<le> 90) \<or> (192 \<le> n \<and> n \<le> 222 \<and> n \<noteq> 215)
         then char_of (n + 32) else c)"

definition CACHE_DIR :: "env \<Rightarrow> string" where
  "CACHE_DIR e = cache_dir e"

definition VIDEO_DIR :: "env \<Rightarrow> string" where
  "VIDEO_DIR e = os_path_join (CACHE_DIR e) ''videos''"

definition CHANNEL_DIR :: "env \<Rightarrow> string" where
  "CHANNEL_DIR e = os_path_join (CACHE_DIR e) ''channels''"

definition PLAYLIST_DIR :: "env \<Rightarrow> string" where
  "PLAYLIST_DIR e = os_path_join (CACHE_DIR e) ''playlists''"

text \<open>
  The cache paths that the download and delete methods of channels and playlists build
  in their local variables (\<^verbatim>\<open>thumb_path\<close>, \<^verbatim>\<open>banner_path\<close>, \<^verbatim>\<open>thumb\<close>,
  \<^verbatim>\<open>banner\<close>).
\<close>

definition channel_thumb_path :: "env \<Rightarrow> string \<Rightarrow> string" where
  "channel_thumb_path e i = os_path_join (CHANNEL_DIR e) (i @ ''_thumb.jpg'')"

definition channel_banner_path :: "env \<Rightarrow> string \<Rightarrow> string" where
  "channel_banner_path e i = os_path_join (CHANNEL_DIR e) (i @ ''_banner.jpg'')"

definition playlist_thumb_path :: "env \<Rightarrow> string \<Rightarrow> string" where
  "playlist_thumb_path e i = os_path_join (PLAYLIST_DIR e) (i @ ''.jpg'')"

subsection \<open>File system and PIL operations\<close>

definition os_path_exists :: "world \<Rightarrow> string \<Rightarrow> bool" where
  "os_path_exists w p = (p \<in> dirs w \<or> files w p \<noteq> None)"

text \<open>
  A directory is there when it was made, or when its name consists of slashes: the root.
\<close>

definition os_path_isdir :: "world \<Rightarrow> string \<Rightarrow> bool" where
  "os_path_isdir w d = (d \<in> dirs w \<or> (d \<noteq> [] \<and> dropWhile (\<lambda>c. c = CHR ''/'') d = []))"

text \<open>The directories above \<open>p\<close>: its non-empty prefixes that end before a slash.\<close>

definition ancestors :: "string \<Rightarrow> string list" where
  "ancestors p = [take n p. n \<leftarrow> [1..<length p], p ! n = CHR ''/'']"

text \<open>
  \<^verbatim>\<open>os.makedirs(p, exist_ok=True)\<close>: the directory and the ones above it exist
  afterwards; a file at \<open>p\<close> is an error. (A file in the place of a directory above
  \<open>p\<close>, and permissions, are not modelled.)
\<close>

definition os_makedirs :: "string \<Rightarrow> world \<Rightarrow> (py_error + unit) \<times> world" where
  "os_makedirs p w =
     (if files w p \<noteq> None then (Inl (FileExistsError p), w)
      else (Inr (), w\<lparr>dirs := dirs w \<union> set (ancestors p) \<union> {p}\<rparr>))"

text \<open>\<^verbatim>\<open>os.remove(p)\<close> removes a file and nothing else.\<close>

definition os_remove :: "string \<Rightarrow> world \<Rightarrow> (py_error + unit) \<times> world" where
  "os_remove p w =
     (if files w p \<noteq> None then (Inr (), w\<lparr>files := (files w)(p := None)\<rparr>)
      else if p \<in> dirs w then (Inl (IsADirectoryError p), w)
      else (Inl (FileNotFoundError p), w))"

text \<open>\<^verbatim>\<open>Image.open(path)\<close> on a local file.\<close>

definition image_open :: "world \<Rightarrow> string \<Rightarrow> py_error + image" where
  "image_open w p =
     (case files w p of None \<Rightarrow> Inl (FileNotFoundError p) | Some img \<Rightarrow> Inr img)"

definition convert_RGB :: "image \<Rightarrow> image" where
  "convert_RGB img = Image (img_width img) (img_height img) (RGB (img_pixels img))"

text \<open>
  \<^verbatim>\<open>img.save(path)\<close>: the file is written when the path is not a directory and its
  directory exists (the current directory, the empty name, always does). The file then
  holds the image.
\<close>

definition image_save :: "image \<Rightarrow> string \<Rightarrow> world \<Rightarrow> (py_error + unit) \<times> world" where
  "image_save img p w =
     (if p \<in> dirs w then (Inl (IsADirectoryError p), w)
      else if os_path_dirname p = [] \<or> os_path_isdir w (os_path_dirname p)
      then (Inr (), w\<lparr>files := (files w)(p \<mapsto> img)\<rparr>)
      else (Inl (FileNotFoundError p), w))"

text \<open>Python's \<^verbatim>\<open>round\<close> to an integer: a tie goes to the even neighbour.\<close>

definition py_round :: "rat \<Rightarrow> int" where
  "py_round x =
     (let f = \<lfloor>x\<rfloor>; d = x - of_int f
      in if d < 1 / 2 then f
         else if 1 / 2 < d then f + 1
         else if even f then f else f + 1)"

text \<open>
  \<^verbatim>\<open>Image.crop(box)\<close>: a box whose right or lower edge lies before the left or upper
  one is refused; otherwise the coordinates are rounded and the result has the size of
  the rounded box (a box reaching outside the image is filled up).
\<close>

definition image_crop :: "image \<Rightarrow> rat \<times> rat \<times> rat \<times> rat \<Rightarrow> py_error + image" where
  "image_crop img box =
     (case box of (x_left, y_upper, x_right, y_lower) \<Rightarrow>
        if x_right < x_left \<or> y_lower < y_upper then Inl ValueError
        else let x0 = py_round x_left; y0 = py_round y_upper;
                 x1 = py_round x_right; y1 = py_round y_lower
             in Inr (Image (nat (x1 - x0)) (nat (y1 - y0))
                       (Cropped x0 y0 x1 y1 (img_pixels img))))"

subsection \<open>ThumbManagerBase\<close>

definition default_map :: "string \<Rightarrow> (string \<rightharpoonup> string)" where
  "default_map app =
     [''video'' \<mapsto> os_path_join app ''static/img/default-video-thumb.jpg'',
      ''playlist'' \<mapsto> os_path_join app ''static/img/default-video-thumb.jpg'',
      ''icon'' \<mapsto> os_path_join app ''static/img/default-channel-icon.jpg'',
      ''banner'' \<mapsto> os_path_join app ''static/img/default-channel-banner.jpg'']"

definition get_fallback :: "env \<Rightarrow> thumb_manager \<Rightarrow> world \<Rightarrow> py_error + image" where
  "get_fallback e mgr w =
     (case (if truthy (fallback mgr) then fallback mgr else None) of
        Some p \<Rightarrow> image_open w p
      | None \<Rightarrow>
          (case default_map (app_root e) (item_type mgr) of
             None \<Rightarrow> Inl (KeyError (item_type mgr))
           | Some p \<Rightarrow> image_open w p))"

text \<open>\<^verbatim>\<open>return self.get_fallback()\<close>: the image, or the exception of opening it.\<close>

definition returned :: "py_error + image \<Rightarrow> py_error + fetched" where
  "returned r = (case r of Inl err \<Rightarrow> Inl err | Inr img \<Rightarrow> Inr (Img img))"

text \<open>
  The body of \<^verbatim>\<open>for i in range(3)\<close> in \<^verbatim>\<open>download_raw\<close>, by recursion on the
  indices still to come. A response that is neither ok nor a 404 goes to the next index
  without sleeping; leaving the loop returns \<^verbatim>\<open>False\<close>.
\<close>

fun download_raw_loop ::
  "env \<Rightarrow> thumb_manager \<Rightarrow> string \<Rightarrow> nat list \<Rightarrow> world \<Rightarrow> (py_error + fetched) \<times> world"
where
  "download_raw_loop e mgr url [] w = (Inr PyFalse, w)"
| "download_raw_loop e mgr url (i # rest) w =
     (let w1 = w\<lparr>requests := requests w @ [url]\<rparr>
      in case http_get e url (length (requests w)) of
           Response status body \<Rightarrow>
             if response_ok status then
               (case body of
                  Some img \<Rightarrow> (Inr (Img img), w1)
                | None \<Rightarrow>
                    (let w2 = w1\<lparr>stdout := stdout w1 @ [''failed to open thumbnail: '' @ url]\<rparr>
                     in (returned (get_fallback e mgr w2), w2)))
             else if status = 404 then (returned (get_fallback e mgr w1), w1)
             else download_raw_loop e mgr url rest w1
         | RequestException \<Rightarrow>
             download_raw_loop e mgr url rest
               (w1\<lparr>stdout := stdout w1 @ [item_id mgr @ '': retry thumbnail download '' @ url],
                   sleeps := sleeps w1 @ [(i + 1) ^ i]\<rparr>))"

definition download_raw ::
  "env \<Rightarrow> thumb_manager \<Rightarrow> string option \<Rightarrow> world \<Rightarrow> (py_error + fetched) \<times> world"
where
  "download_raw e mgr url w =
     (case url of
        None \<Rightarrow> (returned (get_fallback e mgr w), w)
      | Some u \<Rightarrow>
          if u = [] then (returned (get_fallback e mgr w), w)
          else download_raw_loop e mgr u [0..<3] w)"

subsection \<open>ThumbManager\<close>

text \<open>
  \<^verbatim>\<open>vid_thumb_path(absolute, create_folder)\<close>. \<^verbatim>\<open>self.item_id[0]\<close> raises
  \<^verbatim>\<open>IndexError\<close> on the empty id.
\<close>

definition vid_thumb_path ::
  "env \<Rightarrow> thumb_manager \<Rightarrow> bool \<Rightarrow> bool \<Rightarrow> world \<Rightarrow> (py_error + string) \<times> world"
where
  "vid_thumb_path e mgr absolute create_folder w =
     (case item_id mgr of
        [] \<Rightarrow> (Inl IndexError, w)
      | c # _ \<Rightarrow>
          (let folder_name = [char_lower c];
               folder_path = os_path_join ''videos'' folder_name;
               rel_path = os_path_join folder_path (item_id mgr @ ''.jpg'');
               thumb_path = (if absolute then os_path_join (CACHE_DIR e) rel_path else rel_path)
           in if create_folder then
                (case os_makedirs (os_path_join (CACHE_DIR e) folder_path) w of
                   (Inl err, w1) \<Rightarrow> (Inl err, w1)
                 | (Inr _, w1) \<Rightarrow> (Inr thumb_path, w1))
              else (Inr thumb_path, w)))"

text \<open>
  Lines 123 to 128 of \<^verbatim>\<open>download_video_thumb\<close>: the size of the image, the test
  \<^verbatim>\<open>width / height == 16 / 9\<close> and the crop. The Python computes in binary floating
  point; width / 16 * 9, the offset and height - offset are multiples of 1/32 and exact
  there, and two fractions of image sizes that differ are more than a rounding error
  apart, so the rational numbers give the same values and the same test.
\<close>

definition fit_16_9 :: "image \<Rightarrow> py_error + image" where
  "fit_16_9 img_raw =
     (let width = (of_nat (img_width img_raw) :: rat);
          height = (of_nat (img_height img_raw) :: rat)
      in if img_height img_raw = 0 then Inl ZeroDivisionError
         else if \<not> (width / height = 16 / 9) then
           (let new_height = width / 16 * 9;
                offset = (height - new_height) / 2
            in image_crop img_raw (0, offset, width, height - offset))
         else Inr img_raw)"

text \<open>
  \<^verbatim>\<open>img_raw.size\<close> and \<^verbatim>\<open>img_raw.convert\<close> on the value \<^verbatim>\<open>False\<close> raise
  \<^verbatim>\<open>AttributeError\<close>.
\<close>

definition download_video_thumb ::
  "env \<Rightarrow> thumb_manager \<Rightarrow> string option \<Rightarrow> bool \<Rightarrow> world \<Rightarrow> (py_error + unit) \<times> world"
where
  "download_video_thumb e mgr url skip_existing w =
     (case item_id mgr of
        [] \<Rightarrow> (Inl IndexError, w)
      | c # _ \<Rightarrow>
          (let folder_path = os_path_join (VIDEO_DIR e) [char_lower c]
           in case vid_thumb_path e mgr True False w of
                (Inl err, w0) \<Rightarrow> (Inl err, w0)
              | (Inr thumb_path, w0) \<Rightarrow>
                  if skip_existing \<and> os_path_exists w0 thumb_path then (Inr (), w0)
                  else
                    (case os_makedirs folder_path w0 of
                       (Inl err, w1) \<Rightarrow> (Inl err, w1)
                     | (Inr _, w1) \<Rightarrow>
                         (case download_raw e mgr url w1 of
                            (Inl err, w2) \<Rightarrow> (Inl err, w2)
                          | (Inr PyFalse, w2) \<Rightarrow> (Inl AttributeError, w2)
                          | (Inr (Img img_raw), w2) \<Rightarrow>
                              (case fit_16_9 img_raw of
                                 Inl err \<Rightarrow> (Inl err, w2)
                               | Inr img \<Rightarrow> image_save (convert_RGB img) thumb_path w2)))))"

text \<open>
  The two steps of \<^verbatim>\<open>download_channel_art\<close> assign \<^verbatim>\<open>self.item_type\<close>, so they
  return the handler as well.
\<close>

definition download_channel_thumb ::
  "env \<Rightarrow> thumb_manager \<Rightarrow> string option \<Rightarrow> bool \<Rightarrow> world
     \<Rightarrow> (py_error + unit) \<times> thumb_manager \<times> world"
where
  "download_channel_thumb e mgr channel_thumb skip_existing w =
     (let thumb_path = channel_thumb_path e (item_id mgr);
          mgr1 = mgr\<lparr>item_type := ''icon''\<rparr>
      in if skip_existing \<and> os_path_exists w thumb_path then (Inr (), mgr1, w)
         else
           (case download_raw e mgr1 channel_thumb w of
              (Inl err, w1) \<Rightarrow> (Inl err, mgr1, w1)
            | (Inr PyFalse, w1) \<Rightarrow> (Inl AttributeError, mgr1, w1)
            | (Inr (Img img_raw), w1) \<Rightarrow>
                (case image_save (convert_RGB img_raw) thumb_path w1 of
                   (r, w2) \<Rightarrow> (r, mgr1, w2))))"

definition download_channel_banner ::
  "env \<Rightarrow> thumb_manager \<Rightarrow> string option \<Rightarrow> bool \<Rightarrow> world
     \<Rightarrow> (py_error + unit) \<times> thumb_manager \<times> world"
where
  "download_channel_banner e mgr channel_banner skip_existing w =
     (let banner_path = channel_banner_path e (item_id mgr);
          mgr1 = mgr\<lparr>item_type := ''banner''\<rparr>
      in if skip_existing \<and> os_path_exists w banner_path then (Inr (), mgr1, w)
         else
           (case download_raw e mgr1 channel_banner w of
              (Inl err, w1) \<Rightarrow> (Inl err, mgr1, w1)
            | (Inr PyFalse, w1) \<Rightarrow> (Inl AttributeError, mgr1, w1)
            | (Inr (Img img_raw), w1) \<Rightarrow>
                (case image_save (convert_RGB img_raw) banner_path w1 of
                   (r, w2) \<Rightarrow> (r, mgr1, w2))))"

definition download_channel_art ::
  "env \<Rightarrow> thumb_manager \<Rightarrow> string option \<times> string option \<Rightarrow> bool \<Rightarrow> world
     \<Rightarrow> (py_error + unit) \<times> thumb_manager \<times> world"
where
  "download_channel_art e mgr urls skip_existing w =
     (case urls of (channel_thumb, channel_banner) \<Rightarrow>
        (case download_channel_thumb e mgr channel_thumb skip_existing w of
           (Inl err, mgr1, w1) \<Rightarrow> (Inl err, mgr1, w1)
         | (Inr _, mgr1, w1) \<Rightarrow> download_channel_banner e mgr1 channel_banner skip_existing w1))"

definition download_playlist_thumb ::
  "env \<Rightarrow> thumb_manager \<Rightarrow> string option \<Rightarrow> bool \<Rightarrow> world \<Rightarrow> (py_error + unit) \<times> world"
where
  "download_playlist_thumb e mgr url skip_existing w =
     (let thumb_path = playlist_thumb_path e (item_id mgr)
      in if skip_existing \<and> os_path_exists w thumb_path then (Inr (), w)
         else
           (case download_raw e mgr url w of
              (Inl err, w1) \<Rightarrow> (Inl err, w1)
            | (Inr PyFalse, w1) \<Rightarrow> (Inl AttributeError, w1)
            | (Inr (Img img_raw), w1) \<Rightarrow> image_save (convert_RGB img_raw) thumb_path w1))"

text \<open>
  The argument of \<^verbatim>\<open>download\<close> is one URL for a video or a playlist and a pair of URLs
  for a channel. Python does not check this; an argument of the other shape is made a
  \<^verbatim>\<open>TypeError\<close> here.
\<close>

datatype url_arg = Url "string option" | Urls "string option \<times> string option"

definition download ::
  "env \<Rightarrow> thumb_manager \<Rightarrow> url_arg \<Rightarrow> world \<Rightarrow> (py_error + unit) \<times> thumb_manager \<times> world"
where
  "download e mgr url w =
     (let w0 = w\<lparr>stdout := stdout w @
                  [item_id mgr @ '': download '' @ item_type mgr @ '' thumbnail'']\<rparr>
      in if item_type mgr = ''video'' then
           (case url of
              Url u \<Rightarrow> (case download_video_thumb e mgr u False w0 of (r, w1) \<Rightarrow> (r, mgr, w1))
            | Urls _ \<Rightarrow> (Inl TypeError, mgr, w0))
         else if item_type mgr = ''channel'' then
           (case url of
              Urls us \<Rightarrow> download_channel_art e mgr us False w0
            | Url _ \<Rightarrow> (Inl TypeError, mgr, w0))
         else if item_type mgr = ''playlist'' then
           (case url of
              Url u \<Rightarrow> (case download_playlist_thumb e mgr u False w0 of (r, w1) \<Rightarrow> (r, mgr, w1))
            | Urls _ \<Rightarrow> (Inl TypeError, mgr, w0))
         else (Inr (), mgr, w0))"

definition delete_video_thumb :: "env \<Rightarrow> thumb_manager \<Rightarrow> world \<Rightarrow> (py_error + unit) \<times> world" where
  "delete_video_thumb e mgr w =
     (case vid_thumb_path e mgr False False w of
        (Inl err, w0) \<Rightarrow> (Inl err, w0)
      | (Inr thumb_path, w0) \<Rightarrow>
          (let to_delete = os_path_join (CACHE_DIR e) thumb_path
           in if os_path_exists w0 to_delete then os_remove to_delete w0 else (Inr (), w0)))"

definition delete_channel_thumb :: "env \<Rightarrow> thumb_manager \<Rightarrow> world \<Rightarrow> (py_error + unit) \<times> world" where
  "delete_channel_thumb e mgr w =
     (let thumb = channel_thumb_path e (item_id mgr);
          banner = channel_banner_path e (item_id mgr)
      in case (if os_path_exists w thumb then os_remove thumb w else (Inr (), w)) of
           (Inl err, w1) \<Rightarrow> (Inl err, w1)
         | (Inr _, w1) \<Rightarrow>
             if os_path_exists w1 banner then os_remove banner w1 else (Inr (), w1))"

definition delete_playlist_thumb :: "env \<Rightarrow> thumb_manager \<Rightarrow> world \<Rightarrow> (py_error + unit) \<times> world" where
  "delete_playlist_thumb e mgr w =
     (let thumb_path = playlist_thumb_path e (item_id mgr)
      in if os_path_exists w thumb_path then os_remove thumb_path w else (Inr (), w))"

definition delete :: "env \<Rightarrow> thumb_manager \<Rightarrow> world \<Rightarrow> (py_error + unit) \<times> world" where
  "delete e mgr w =
     (let w0 = w\<lparr>stdout := stdout w @
                  [item_id mgr @ '': delete '' @ item_type mgr @ '' thumbnail'']\<rparr>
      in if item_type mgr = ''video'' then delete_video_thumb e mgr w0
         else if item_type mgr = ''channel'' then delete_channel_thumb e mgr w0
         else if item_type mgr = ''playlist'' then delete_playlist_thumb e mgr w0
         else (Inr (), w0))"

subsection \<open>ValidatorCallback and ThumbValidator\<close>



















subsection \<open>Concrete inputs\<close>

text \<open>
  A network on which every request fails, one that answers every request with a 404, and
  one that serves a given image; a world with nothing in it, and one that holds the three
  bundled default images and the cache directories.
\<close>

definition offline :: env where
  "offline = \<lparr>cache_dir = ''/cache'', app_root = ''/app'',
               http_get = (\<lambda>url n. RequestException)\<rparr>"

definition not_found :: env where
  "not_found = \<lparr>cache_dir = ''/cache'', app_root = ''/app'',
                 http_get = (\<lambda>url n. Response 404 None)\<rparr>"

definition serving :: "image \<Rightarrow> env" where
  "serving img = \<lparr>cache_dir = ''/cache'', app_root = ''/app'',
                   http_get = (\<lambda>url n. Response 200 (Some img))\<rparr>"

definition empty_world :: world where
  "empty_world = \<lparr>requests = [], sleeps = [], stdout = [], dirs = {}, files = Map.empty\<rparr>"

definition bundled_world :: world where
  "bundled_world =
     \<lparr>requests = [], sleeps = [], stdout = [],
      dirs = {''/cache'', ''/cache/videos'', ''/cache/channels'', ''/cache/playlists''},
      files = [''/app/static/img/default-video-thumb.jpg'' \<mapsto> Image 1280 720 (Pixels 0),
               ''/app/static/img/default-channel-icon.jpg'' \<mapsto> Image 900 900 (Pixels 1),
               ''/app/static/img/default-channel-banner.jpg'' \<mapsto> Image 2560 424 (Pixels 2)]\<rparr>"


section \<open>Properties\<close>

subsection \<open>What does not change the fallback\<close>

lemma image_open_upd [simp]:
  "image_open (w\<lparr>requests := r\<rparr>) = image_open w"
  "image_open (w\<lparr>stdout := out\<rparr>) = image_open w"
  "image_open (w\<lparr>sleeps := sl\<rparr>) = image_open w"
  "image_open (w\<lparr>dirs := ds\<rparr>) = image_open w"
  by (simp_all add: fun_eq_iff image_open_def)

lemma get_fallback_upd [simp]:
  "get_fallback e mgr (w\<lparr>requests := r\<rparr>) = get_fallback e mgr w"
  "get_fallback e mgr (w\<lparr>stdout := out\<rparr>) = get_fallback e mgr w"
  "get_fallback e mgr (w\<lparr>sleeps := sl\<rparr>) = get_fallback e mgr w"
  "get_fallback e mgr (w\<lparr>dirs := ds\<rparr>) = get_fallback e mgr w"
  by (simp_all add: get_fallback_def split: option.splits)

subsection \<open>The retry loop\<close>

lemma range_3: "[0..<3] = [0, 1, 2]"
  by (simp add: numeral_3_eq_3)

text \<open>The whole effect of a fetch on which every request fails.\<close>

lemma download_raw_all_fail:
  assumes "u \<noteq> []" and "\<forall>n. http_get e u n = RequestException"
  shows "download_raw e mgr (Some u) w =
           (Inr PyFalse,
            w\<lparr>requests := requests w @ [u, u, u],
              stdout := stdout w @ replicate 3 (item_id mgr @ '': retry thumbnail download '' @ u),
              sleeps := sleeps w @ [1, 2, 9]\<rparr>)"
  using assms by (simp add: download_raw_def range_3 Let_def numeral_3_eq_3)

text \<open>
  Claim C2. For a non-empty URL on which every request raises a network error, the fetch
  makes exactly three requests, all to that URL, and returns \<^verbatim>\<open>False\<close> instead of an
  image.
\<close>

theorem C2_retry_cap:
  assumes "u \<noteq> []" and "\<forall>n. http_get e u n = RequestException"
  shows "fst (download_raw e mgr (Some u) w) = Inr PyFalse \<and>
         requests (snd (download_raw e mgr (Some u) w)) = requests w @ [u, u, u] \<and>
         length (requests (snd (download_raw e mgr (Some u) w))) = length (requests w) + 3"
  using download_raw_all_fail [OF assms] by simp

theorem C2_retry_cap_witness:
  "fst (download_raw offline (ThumbManager ''dQw4w9WgXcQ'') (Some ''https://i.ytimg.com/a.jpg'')
          empty_world) = Inr PyFalse \<and>
   requests (snd (download_raw offline (ThumbManager ''dQw4w9WgXcQ'')
                    (Some ''https://i.ytimg.com/a.jpg'') empty_world)) =
     [''https://i.ytimg.com/a.jpg'', ''https://i.ytimg.com/a.jpg'', ''https://i.ytimg.com/a.jpg'']"
proof -
  have nonempty: "''https://i.ytimg.com/a.jpg'' \<noteq> []" by simp
  have failing: "\<forall>n. http_get offline ''https://i.ytimg.com/a.jpg'' n = RequestException"
    by (simp add: offline_def)
  from C2_retry_cap [OF nonempty failing, of "ThumbManager ''dQw4w9WgXcQ''" empty_world]
  show ?thesis by (simp add: empty_world_def)
qed

text \<open>
  Claim C5, as stated, fails: the sleeps of a fetch on which every request fails are
  1, 2 and 9 time units, not \<open>i ^ i\<close>, which is 1, 1 and 4.
\<close>

theorem C5_sleeps_counterexample:
  "sleeps (snd (download_raw offline (ThumbManager ''dQw4w9WgXcQ'')
                  (Some ''https://i.ytimg.com/a.jpg'') empty_world)) = [1, 2, 9] \<and>
   sleeps (snd (download_raw offline (ThumbManager ''dQw4w9WgXcQ'')
                  (Some ''https://i.ytimg.com/a.jpg'') empty_world)) \<noteq> map (\<lambda>i. i ^ i) [0, 1, 2]"
  by (simp add: download_raw_all_fail offline_def empty_world_def)

text \<open>
  Claim C5, amended. When every request fails at the network level, the failure of
  attempt \<open>i\<close> (counted from 0) is followed by a sleep of \<open>(i + 1) ^ i\<close> time units: the
  sequence 1, 2, 9. It never decreases, and every sleep lasts at least one unit, so no
  retry follows a failure at once.
\<close>

theorem C5_backoff:
  assumes "u \<noteq> []" and "\<forall>n. http_get e u n = RequestException"
  shows "sleeps (snd (download_raw e mgr (Some u) w)) = sleeps w @ map (\<lambda>i. (i + 1) ^ i) [0, 1, 2] \<and>
         map (\<lambda>i. (i + 1) ^ i) [0, 1, 2] = [1, 2, 9 :: nat] \<and>
         sorted (map (\<lambda>i. (i + 1) ^ i) [0, 1, 2 :: nat]) \<and>
         list_all (\<lambda>t. 1 \<le> t) (map (\<lambda>i. (i + 1) ^ i) [0, 1, 2 :: nat])"
  using download_raw_all_fail [OF assms] by simp

theorem C5_backoff_witness:
  "sleeps (snd (download_raw offline (ThumbManager ''dQw4w9WgXcQ'')
                  (Some ''https://i.ytimg.com/b.jpg'') empty_world)) = [1, 2, 9]"
proof -
  have nonempty: "''https://i.ytimg.com/b.jpg'' \<noteq> []" by simp
  have failing: "\<forall>n. http_get offline ''https://i.ytimg.com/b.jpg'' n = RequestException"
    by (simp add: offline_def)
  from C5_backoff [OF nonempty failing, of "ThumbManager ''dQw4w9WgXcQ''" empty_world]
  show ?thesis by (simp add: empty_world_def)
qed

lemma download_raw_loop_stops:
  assumes "k < length idxs"
    and "\<forall>j<k. http_get e u (length (requests w) + j) = RequestException \<or>
           (\<exists>s' b'. http_get e u (length (requests w) + j) = Response s' b' \<and>
                     \<not> response_ok s' \<and> s' \<noteq> 404)"
    and "http_get e u (length (requests w) + k) = Response s body"
    and "s = 404 \<or> (response_ok s \<and> body = None)"
  shows "fst (download_raw_loop e mgr u idxs w) = returned (get_fallback e mgr w) \<and>
         requests (snd (download_raw_loop e mgr u idxs w)) = requests w @ replicate (Suc k) u"
  using assms
proof (induction idxs arbitrary: k w)
  case Nil
  then show ?case by simp
next
  case (Cons i idxs)
  show ?case
  proof (cases k)
    case 0
    with Cons.prems(3,4) show ?thesis
      by (auto simp: Let_def response_ok_def split: option.splits)
  next
    case (Suc k')
    let ?w1 = "w\<lparr>requests := requests w @ [u]\<rparr>"
    let ?w2 = "?w1\<lparr>stdout := stdout ?w1 @ [item_id mgr @ '': retry thumbnail download '' @ u],
                   sleeps := sleeps ?w1 @ [(i + 1) ^ i]\<rparr>"
    have first: "http_get e u (length (requests w)) = RequestException \<or>
           (\<exists>s' b'. http_get e u (length (requests w)) = Response s' b' \<and>
                     \<not> response_ok s' \<and> s' \<noteq> 404)"
      using Cons.prems(2) Suc by (metis add.right_neutral zero_less_Suc)
    have later: "\<forall>j<k'. http_get e u (length (requests w) + Suc j) = RequestException \<or>
           (\<exists>s' b'. http_get e u (length (requests w) + Suc j) = Response s' b' \<and>
                     \<not> response_ok s' \<and> s' \<noteq> 404)"
      using Cons.prems(2) Suc by (metis Suc_less_eq)
    have stop: "http_get e u (length (requests w) + Suc k') = Response s body"
      using Cons.prems(3) Suc by simp
    have k': "k' < length idxs" using Cons.prems(1) Suc by simp
    have ih1: "fst (download_raw_loop e mgr u idxs ?w1) = returned (get_fallback e mgr w) \<and>
         requests (snd (download_raw_loop e mgr u idxs ?w1)) = requests w @ replicate (Suc k) u"
      using Cons.IH [of k' ?w1] k' later stop Cons.prems(4) Suc
      by (simp add: replicate_append_same)
    have ih2: "fst (download_raw_loop e mgr u idxs ?w2) = returned (get_fallback e mgr w) \<and>
         requests (snd (download_raw_loop e mgr u idxs ?w2)) = requests w @ replicate (Suc k) u"
      using Cons.IH [of k' ?w2] k' later stop Cons.prems(4) Suc
      by (simp add: replicate_append_same)
    from first show ?thesis
    proof
      assume "http_get e u (length (requests w)) = RequestException"
      then show ?thesis using ih2 by (simp add: Let_def)
    next
      assume "\<exists>s' b'. http_get e u (length (requests w)) = Response s' b' \<and>
                     \<not> response_ok s' \<and> s' \<noteq> 404"
      then show ?thesis using ih1 by (auto simp: Let_def)
    qed
  qed
qed

lemma download_raw_first_answer:
  assumes "u \<noteq> []"
    and "http_get e u (length (requests w)) = Response s body"
    and "s = 404 \<or> (response_ok s \<and> body = None)"
  shows "sleeps (snd (download_raw e mgr (Some u) w)) = sleeps w"
  using assms by (auto simp: download_raw_def range_3 Let_def response_ok_def split: option.splits)

text \<open>
  Claim C8. When a request is answered with a 404, or with an ok status and a body that
  is no image, the fetch returns the fallback image and sends no further request: after
  \<open>k\<close> attempts that were retried (a network error, or a status that is neither ok nor
  404), the answer to attempt \<open>k\<close> ends the fetch with \<open>k + 1\<close> requests made. When it is
  the first answer, one request was made and nothing slept.
\<close>

theorem C8_no_retry:
  assumes "u \<noteq> []" and "k < 3"
    and "\<forall>j<k. http_get e u (length (requests w) + j) = RequestException \<or>
           (\<exists>s' b'. http_get e u (length (requests w) + j) = Response s' b' \<and>
                     \<not> response_ok s' \<and> s' \<noteq> 404)"
    and "http_get e u (length (requests w) + k) = Response s body"
    and "s = 404 \<or> (response_ok s \<and> body = None)"
  shows "fst (download_raw e mgr (Some u) w) = returned (get_fallback e mgr w) \<and>
         requests (snd (download_raw e mgr (Some u) w)) = requests w @ replicate (Suc k) u \<and>
         (k = 0 \<longrightarrow> sleeps (snd (download_raw e mgr (Some u) w)) = sleeps w)"
proof -
  have "k < length [0..<3]" using assms(2) by simp
  from download_raw_loop_stops [OF this assms(3) assms(4) assms(5)] assms(1)
  have "fst (download_raw e mgr (Some u) w) = returned (get_fallback e mgr w) \<and>
         requests (snd (download_raw e mgr (Some u) w)) = requests w @ replicate (Suc k) u"
    by (simp add: download_raw_def)
  moreover have "sleeps (snd (download_raw e mgr (Some u) w)) = sleeps w" if "k = 0"
    using download_raw_first_answer [OF assms(1) _ assms(5)] assms(4) that by simp
  ultimately show ?thesis by blast
qed

theorem C8_no_retry_witness:
  "fst (download_raw not_found (ThumbManager ''dQw4w9WgXcQ'') (Some ''https://i.ytimg.com/a.jpg'')
          bundled_world) = Inr (Img (Image 1280 720 (Pixels 0))) \<and>
   requests (snd (download_raw not_found (ThumbManager ''dQw4w9WgXcQ'')
                    (Some ''https://i.ytimg.com/a.jpg'') bundled_world)) =
     [''https://i.ytimg.com/a.jpg''] \<and>
   sleeps (snd (download_raw not_found (ThumbManager ''dQw4w9WgXcQ'')
                  (Some ''https://i.ytimg.com/a.jpg'') bundled_world)) = []"
proof -
  have h1: "''https://i.ytimg.com/a.jpg'' \<noteq> []" by simp
  have h2: "(0::nat) < 3" by simp
  have h3: "\<forall>j<0. http_get not_found ''https://i.ytimg.com/a.jpg'' (length (requests bundled_world) + j)
                 = RequestException \<or>
           (\<exists>s' b'. http_get not_found ''https://i.ytimg.com/a.jpg''
                        (length (requests bundled_world) + j) = Response s' b' \<and>
                     \<not> response_ok s' \<and> s' \<noteq> 404)" by simp
  have h4: "http_get not_found ''https://i.ytimg.com/a.jpg'' (length (requests bundled_world) + 0)
              = Response 404 None"
    by (simp add: not_found_def)
  have h5: "(404::nat) = 404 \<or> (response_ok 404 \<and> (None :: image option) = None)" by simp
  have fb: "get_fallback not_found (ThumbManager ''dQw4w9WgXcQ'') bundled_world
              = Inr (Image 1280 720 (Pixels 0))"
    by (simp add: get_fallback_def ThumbManager_def default_map_def not_found_def
          os_path_join_def image_open_def bundled_world_def)
  from C8_no_retry [OF h1 h2 h3 h4 h5, of "ThumbManager ''dQw4w9WgXcQ''"] fb
  show ?thesis by (simp add: returned_def bundled_world_def)
qed

subsection \<open>Fallback resolution and dispatch\<close>

lemma default_map_dom:
  "dom (default_map a) = {''video'', ''playlist'', ''icon'', ''banner''}"
  by (auto simp: default_map_def split: if_splits)

lemma default_map_lookup:
  "default_map a ''video'' = Some (os_path_join a ''static/img/default-video-thumb.jpg'')"
  "default_map a ''playlist'' = Some (os_path_join a ''static/img/default-video-thumb.jpg'')"
  "default_map a ''icon'' = Some (os_path_join a ''static/img/default-channel-icon.jpg'')"
  "default_map a ''banner'' = Some (os_path_join a ''static/img/default-channel-banner.jpg'')"
  by (simp_all add: default_map_def)

lemma download_raw_no_url:
  "\<not> truthy url \<Longrightarrow> download_raw e mgr url w = (returned (get_fallback e mgr w), w)"
  by (cases url) (simp_all add: download_raw_def)

text \<open>
  Claim C7. For each of the four kinds video, icon, banner and playlist, a fetch with no
  URL (\<^verbatim>\<open>None\<close> or the empty string) returns the fallback at once: no request is made and
  the world is untouched. An explicit fallback path, when given, is the image that is
  opened; otherwise it is the kind's entry of \<open>default_map\<close>, which has exactly these
  four kinds, video and playlist sharing one image.
\<close>

theorem C7_fallback_without_url:
  assumes "item_type mgr \<in> {''video'', ''icon'', ''banner'', ''playlist''}" and "\<not> truthy url"
  shows "download_raw e mgr url w = (returned (get_fallback e mgr w), w) \<and>
         (truthy (fallback mgr) \<longrightarrow> get_fallback e mgr w = image_open w (the (fallback mgr))) \<and>
         (\<not> truthy (fallback mgr) \<longrightarrow>
            default_map (app_root e) (item_type mgr) \<noteq> None \<and>
            get_fallback e mgr w = image_open w (the (default_map (app_root e) (item_type mgr)))) \<and>
         dom (default_map (app_root e)) = {''video'', ''icon'', ''banner'', ''playlist''} \<and>
         default_map (app_root e) ''video'' =
           Some (os_path_join (app_root e) ''static/img/default-video-thumb.jpg'') \<and>
         default_map (app_root e) ''playlist'' = default_map (app_root e) ''video'' \<and>
         default_map (app_root e) ''icon'' =
           Some (os_path_join (app_root e) ''static/img/default-channel-icon.jpg'') \<and>
         default_map (app_root e) ''banner'' =
           Some (os_path_join (app_root e) ''static/img/default-channel-banner.jpg'')"
proof -
  have known: "default_map (app_root e) (item_type mgr) \<noteq> None"
    using assms(1) default_map_dom [of "app_root e"] by blast
  have explicit: "truthy (fallback mgr) \<Longrightarrow> get_fallback e mgr w = image_open w (the (fallback mgr))"
    by (cases "fallback mgr") (simp_all add: get_fallback_def)
  have by_kind: "\<not> truthy (fallback mgr) \<Longrightarrow>
      get_fallback e mgr w = image_open w (the (default_map (app_root e) (item_type mgr)))"
    using known by (auto simp: get_fallback_def)
  show ?thesis
    using download_raw_no_url [OF assms(2)] known explicit by_kind
    by (auto simp: default_map_dom default_map_lookup)
qed

theorem C7_fallback_without_url_witness:
  "download_raw offline \<lparr>item_id = ''UCabc'', item_type = ''banner'', fallback = None\<rparr> None
     bundled_world = (Inr (Img (Image 2560 424 (Pixels 2))), bundled_world)"
proof -
  have kind: "item_type \<lparr>item_id = ''UCabc'', item_type = ''banner'', fallback = None\<rparr>
                \<in> {''video'', ''icon'', ''banner'', ''playlist''}" by simp
  have absent: "\<not> truthy None" by simp
  from C7_fallback_without_url [OF kind absent, of offline bundled_world]
  show ?thesis
    by (simp add: returned_def offline_def os_path_join_def image_open_def bundled_world_def)
qed

text \<open>
  Claim C9, as stated, fails: \<^verbatim>\<open>download\<close> and \<^verbatim>\<open>delete\<close> on a handler of an
  unknown kind return normally.
\<close>

theorem C9_dispatch_counterexample:
  "fst (download offline \<lparr>item_id = ''abc'', item_type = ''podcast'', fallback = None\<rparr>
          (Url (Some ''https://i.ytimg.com/a.jpg'')) empty_world) = Inr () \<and>
   fst (delete offline \<lparr>item_id = ''abc'', item_type = ''podcast'', fallback = None\<rparr>
          empty_world) = Inr ()"
  by (simp add: download_def delete_def)

text \<open>
  Claim C9, amended. Fallback resolution for a kind outside video, playlist, icon and
  banner raises \<^verbatim>\<open>KeyError\<close> when no explicit fallback is given. \<^verbatim>\<open>download\<close> and
  \<^verbatim>\<open>delete\<close> on a kind outside video, channel and playlist raise nothing: they print
  their line and return, with no request made and no file touched.
\<close>

theorem C9_unknown_kind:
  "(item_type mgr \<notin> {''video'', ''playlist'', ''icon'', ''banner''} \<and> \<not> truthy (fallback mgr)
      \<longrightarrow> get_fallback e mgr w = Inl (KeyError (item_type mgr))) \<and>
   (item_type mgr \<notin> {''video'', ''channel'', ''playlist''}
      \<longrightarrow> download e mgr url w =
            (Inr (), mgr,
             w\<lparr>stdout := stdout w @ [item_id mgr @ '': download '' @ item_type mgr @ '' thumbnail'']\<rparr>) \<and>
          delete e mgr w =
            (Inr (),
             w\<lparr>stdout := stdout w @ [item_id mgr @ '': delete '' @ item_type mgr @ '' thumbnail'']\<rparr>))"
proof -
  have "default_map (app_root e) (item_type mgr) = None"
    if "item_type mgr \<notin> {''video'', ''playlist'', ''icon'', ''banner''}"
    using that default_map_dom [of "app_root e"] by blast
  then show ?thesis
    by (auto simp: get_fallback_def download_def delete_def)
qed

theorem C9_unknown_kind_witness:
  "get_fallback offline \<lparr>item_id = ''abc'', item_type = ''podcast'', fallback = None\<rparr> bundled_world
     = Inl (KeyError ''podcast'') \<and>
   fst (download offline \<lparr>item_id = ''abc'', item_type = ''podcast'', fallback = None\<rparr>
          (Url None) bundled_world) = Inr () \<and>
   delete offline \<lparr>item_id = ''abc'', item_type = ''podcast'', fallback = None\<rparr> empty_world
     = (Inr (), empty_world\<lparr>stdout := [''abc: delete podcast thumbnail'']\<rparr>)"
  using C9_unknown_kind [of "\<lparr>item_id = ''abc'', item_type = ''podcast'', fallback = None\<rparr>"
      offline bundled_world "Url None"]
    C9_unknown_kind [of "\<lparr>item_id = ''abc'', item_type = ''podcast'', fallback = None\<rparr>"
      offline empty_world "Url None"]
  by (simp add: empty_world_def)

subsection \<open>Channel artwork and the handler's kind\<close>

lemma download_channel_thumb_mgr:
  "fst (snd (download_channel_thumb e mgr t skip w)) = mgr\<lparr>item_type := ''icon''\<rparr>"
  by (simp add: download_channel_thumb_def Let_def split: prod.splits sum.splits fetched.splits)

lemma download_channel_banner_mgr:
  "fst (snd (download_channel_banner e mgr b skip w)) = mgr\<lparr>item_type := ''banner''\<rparr>"
  by (simp add: download_channel_banner_def Let_def split: prod.splits sum.splits fetched.splits)

lemma download_channel_art_mgr:
  assumes "download_channel_art e mgr urls skip w = (Inr (), mgr', w')"
  shows "mgr' = mgr\<lparr>item_type := ''banner''\<rparr>"
proof -
  obtain t b where urls: "urls = (t, b)" by (cases urls)
  obtain r1 m1 w1 where icon: "download_channel_thumb e mgr t skip w = (r1, m1, w1)"
    by (cases "download_channel_thumb e mgr t skip w") auto
  have m1: "m1 = mgr\<lparr>item_type := ''icon''\<rparr>"
    using download_channel_thumb_mgr [of e mgr t skip w] icon by simp
  have "download_channel_banner e m1 b skip w1 = (Inr (), mgr', w')"
    using assms urls icon by (cases r1) (simp_all add: download_channel_art_def)
  then have "mgr' = m1\<lparr>item_type := ''banner''\<rparr>"
    using download_channel_banner_mgr [of e m1 b skip w1] by simp
  with m1 show ?thesis by simp
qed

text \<open>
  Claim C10. Whatever \<open>item_type\<close> was, the icon step of \<^verbatim>\<open>download_channel_art\<close> sets
  it to \<open>icon\<close>, and when the method returns it is \<open>banner\<close>. A later \<^verbatim>\<open>download\<close> or
  \<^verbatim>\<open>delete\<close> on that handler matches no branch: it prints its line and does nothing else.
\<close>

theorem C10_item_type_left_banner:
  "item_type (fst (snd (download_channel_thumb e mgr t skip w))) = ''icon'' \<and>
   (\<forall>mgr' w'. download_channel_art e mgr urls skip w = (Inr (), mgr', w') \<longrightarrow>
      item_type mgr' = ''banner'' \<and>
      (\<forall>url w2. download e mgr' url w2 =
         (Inr (), mgr', w2\<lparr>stdout := stdout w2 @ [item_id mgr @ '': download banner thumbnail'']\<rparr>)) \<and>
      (\<forall>w2. delete e mgr' w2 =
         (Inr (), w2\<lparr>stdout := stdout w2 @ [item_id mgr @ '': delete banner thumbnail'']\<rparr>)))"
proof (intro conjI allI impI)
  show "item_type (fst (snd (download_channel_thumb e mgr t skip w))) = ''icon''"
    by (simp add: download_channel_thumb_mgr)
next
  fix mgr' w'
  assume "download_channel_art e mgr urls skip w = (Inr (), mgr', w')"
  then have mgr': "mgr' = mgr\<lparr>item_type := ''banner''\<rparr>"
    by (rule download_channel_art_mgr)
  show "item_type mgr' = ''banner''" using mgr' by simp
  show "download e mgr' url w2 =
         (Inr (), mgr', w2\<lparr>stdout := stdout w2 @ [item_id mgr @ '': download banner thumbnail'']\<rparr>)"
    for url w2
    using mgr' by (simp add: download_def)
  show "delete e mgr' w2 =
         (Inr (), w2\<lparr>stdout := stdout w2 @ [item_id mgr @ '': delete banner thumbnail'']\<rparr>)"
    for w2
    using mgr' by (simp add: delete_def)
qed

lemma channel_art_served:
  "fst (download_channel_art (serving (Image 800 800 (Pixels 7)))
     \<lparr>item_id = ''UCabc'', item_type = ''channel'', fallback = None\<rparr>
     (Some ''https://yt3.ggpht.com/icon'', Some ''https://yt3.ggpht.com/banner'') False bundled_world)
   = Inr ()"
  by (simp add: download_channel_art_def download_channel_thumb_def download_channel_banner_def
      download_raw_def range_3 serving_def response_ok_def image_save_def os_path_isdir_def
      channel_thumb_path_def channel_banner_path_def CHANNEL_DIR_def CACHE_DIR_def
      os_path_join_def os_path_dirname_def bundled_world_def Let_def)

theorem C10_item_type_left_banner_witness:
  "item_type (fst (snd (download_channel_art (serving (Image 800 800 (Pixels 7)))
     \<lparr>item_id = ''UCabc'', item_type = ''channel'', fallback = None\<rparr>
     (Some ''https://yt3.ggpht.com/icon'', Some ''https://yt3.ggpht.com/banner'') False
     bundled_world))) = ''banner'' \<and>
   delete (serving (Image 800 800 (Pixels 7)))
     (fst (snd (download_channel_art (serving (Image 800 800 (Pixels 7)))
        \<lparr>item_id = ''UCabc'', item_type = ''channel'', fallback = None\<rparr>
        (Some ''https://yt3.ggpht.com/icon'', Some ''https://yt3.ggpht.com/banner'') False
        bundled_world))) empty_world
     = (Inr (), empty_world\<lparr>stdout := [''UCabc: delete banner thumbnail'']\<rparr>)"
proof -
  let ?e = "serving (Image 800 800 (Pixels 7))"
  let ?mgr = "\<lparr>item_id = ''UCabc'', item_type = ''channel'', fallback = None\<rparr>"
  let ?urls = "(Some ''https://yt3.ggpht.com/icon'', Some ''https://yt3.ggpht.com/banner'')"
  let ?r = "download_channel_art ?e ?mgr ?urls False bundled_world"
  have ran: "?r = (Inr (), fst (snd ?r), snd (snd ?r))"
    using channel_art_served by (cases ?r) auto
  have "item_type (fst (snd ?r)) = ''banner'' \<and>
        delete ?e (fst (snd ?r)) empty_world =
          (Inr (), empty_world\<lparr>stdout := stdout empty_world @
             [item_id ?mgr @ '': delete banner thumbnail'']\<rparr>)"
    using C10_item_type_left_banner [where e = ?e and mgr = ?mgr and urls = ?urls
        and skip = False and w = bundled_world] ran
    by blast
  then show ?thesis by (simp add: empty_world_def)
qed

subsection \<open>The cache paths\<close>

lemma char_lower_slash: "c \<noteq> CHR ''/'' \<Longrightarrow> char_lower c \<noteq> CHR ''/''"
proof -
  assume c: "c \<noteq> CHR ''/''"
  have shifted: "char_of (n + 32 :: nat) \<noteq> CHR ''/''" if "65 \<le> n" "n \<le> 222" for n :: nat
  proof
    assume "char_of (n + 32) = CHR ''/''"
    then have "of_char (char_of (n + 32) :: char) = (of_char CHR ''/'' :: nat)" by simp
    then have "(n + 32) mod 256 = 47" by (simp add: of_char_of)
    with that show False by (simp add: mod_if)
  qed
  show ?thesis
    using c shifted [of "of_char c"] by (auto simp: char_lower_def Let_def)
qed

lemmas char_lower_eval = char_lower_def char_of_def bit_Suc_0_iff

lemma join_join:
  assumes "b \<noteq> []" "hd b \<noteq> CHR ''/''" "last b \<noteq> CHR ''/''" "c \<noteq> []" "hd c \<noteq> CHR ''/''"
  shows "os_path_join (os_path_join a b) c = os_path_join a (b @ ''/'' @ c)"
  using assms by (simp add: os_path_join_def)

lemma join_videos:
  assumes "i = c # cs" and "c \<noteq> CHR ''/''"
  shows "os_path_join (os_path_join ''videos'' [char_lower c]) (i @ ''.jpg'')
           = ''videos/'' @ [char_lower c] @ ''/'' @ i @ ''.jpg''"
  using assms char_lower_slash [of c] by (simp add: os_path_join_def)

lemma vid_thumb_path_relative:
  assumes "item_id mgr = c # cs" and "c \<noteq> CHR ''/''"
  shows "vid_thumb_path e mgr False False w =
           (Inr (''videos/'' @ [char_lower c] @ ''/'' @ item_id mgr @ ''.jpg''), w)"
  using join_videos [OF assms] assms(1) by (simp add: vid_thumb_path_def Let_def)

lemma vid_thumb_path_absolute:
  assumes "item_id mgr = c # cs" and "c \<noteq> CHR ''/''"
  shows "vid_thumb_path e mgr True False w =
           (Inr (os_path_join (cache_dir e)
                  (''videos/'' @ [char_lower c] @ ''/'' @ item_id mgr @ ''.jpg'')), w)"
  using join_videos [OF assms] assms(1) by (simp add: vid_thumb_path_def Let_def CACHE_DIR_def)

lemma channel_thumb_path_eq:
  assumes "i \<noteq> []" and "hd i \<noteq> CHR ''/''"
  shows "channel_thumb_path e i = os_path_join (cache_dir e) (''channels/'' @ i @ ''_thumb.jpg'')"
  using assms join_join [of "''channels''" "i @ ''_thumb.jpg''" "cache_dir e"]
  by (simp add: channel_thumb_path_def CHANNEL_DIR_def CACHE_DIR_def)

lemma channel_banner_path_eq:
  assumes "i \<noteq> []" and "hd i \<noteq> CHR ''/''"
  shows "channel_banner_path e i = os_path_join (cache_dir e) (''channels/'' @ i @ ''_banner.jpg'')"
  using assms join_join [of "''channels''" "i @ ''_banner.jpg''" "cache_dir e"]
  by (simp add: channel_banner_path_def CHANNEL_DIR_def CACHE_DIR_def)

lemma playlist_thumb_path_eq:
  assumes "i \<noteq> []" and "hd i \<noteq> CHR ''/''"
  shows "playlist_thumb_path e i = os_path_join (cache_dir e) (''playlists/'' @ i @ ''.jpg'')"
  using assms join_join [of "''playlists''" "i @ ''.jpg''" "cache_dir e"]
  by (simp add: playlist_thumb_path_def PLAYLIST_DIR_def CACHE_DIR_def)

text \<open>
  Claim C6, as stated, fails for an id that begins with a slash: \<^verbatim>\<open>os.path.join\<close>
  drops what precedes an absolute component, so the path of the video thumbnail of the
  id \<open>/x\<close> is \<open>/x.jpg\<close>, outside \<open>videos/\<close> and outside the cache root.
\<close>

theorem C6_slash_counterexample:
  "fst (vid_thumb_path offline (ThumbManager ''/x'') False False empty_world) = Inr ''/x.jpg'' \<and>
   fst (vid_thumb_path offline (ThumbManager ''/x'') False False empty_world) \<noteq>
     Inr (''videos/'' @ [char_lower (hd ''/x'')] @ ''/'' @ ''/x'' @ ''.jpg'') \<and>
   channel_thumb_path offline ''/x'' = ''/x_thumb.jpg''"
  by (simp add: vid_thumb_path_def ThumbManager_def Let_def os_path_join_def char_lower_def
      channel_thumb_path_def)

text \<open>
  Claim C6, amended. For every non-empty id that does not begin with a slash, the paths
  depend on the id and the cache root only (not on the world, the kind or the fallback of
  the handler, and computing them changes nothing): the video thumbnail is
  \<open>videos/<lower(id[0])>/<id>.jpg\<close>, joined to the cache root when \<open>absolute\<close> is set; the
  channel artwork is \<open>channels/<id>_thumb.jpg\<close> and \<open>channels/<id>_banner.jpg\<close> and the
  playlist thumbnail \<open>playlists/<id>.jpg\<close>, joined to the cache root. For a cache root
  that is not empty and does not end in a slash, joining puts the root and a slash in
  front.
\<close>

theorem C6_cache_paths:
  assumes "item_id mgr \<noteq> []" and "hd (item_id mgr) \<noteq> CHR ''/''"
  shows "vid_thumb_path e mgr False False w =
           (Inr (''videos/'' @ [char_lower (hd (item_id mgr))] @ ''/'' @ item_id mgr @ ''.jpg''), w) \<and>
         vid_thumb_path e mgr True False w =
           (Inr (os_path_join (cache_dir e)
              (''videos/'' @ [char_lower (hd (item_id mgr))] @ ''/'' @ item_id mgr @ ''.jpg'')), w) \<and>
         channel_thumb_path e (item_id mgr) =
           os_path_join (cache_dir e) (''channels/'' @ item_id mgr @ ''_thumb.jpg'') \<and>
         channel_banner_path e (item_id mgr) =
           os_path_join (cache_dir e) (''channels/'' @ item_id mgr @ ''_banner.jpg'') \<and>
         playlist_thumb_path e (item_id mgr) =
           os_path_join (cache_dir e) (''playlists/'' @ item_id mgr @ ''.jpg'') \<and>
         (cache_dir e \<noteq> [] \<and> last (cache_dir e) \<noteq> CHR ''/'' \<longrightarrow>
            fst (vid_thumb_path e mgr True False w) =
              Inr (cache_dir e @ ''/videos/'' @ [char_lower (hd (item_id mgr))] @ ''/'' @
                   item_id mgr @ ''.jpg'') \<and>
            channel_thumb_path e (item_id mgr) =
              cache_dir e @ ''/channels/'' @ item_id mgr @ ''_thumb.jpg'' \<and>
            channel_banner_path e (item_id mgr) =
              cache_dir e @ ''/channels/'' @ item_id mgr @ ''_banner.jpg'' \<and>
            playlist_thumb_path e (item_id mgr) =
              cache_dir e @ ''/playlists/'' @ item_id mgr @ ''.jpg'')"
proof -
  obtain c cs where i: "item_id mgr = c # cs" using assms(1) by (cases "item_id mgr") auto
  then have c: "c \<noteq> CHR ''/''" and hd: "hd (item_id mgr) = c" using assms(2) by simp_all
  note paths = vid_thumb_path_relative [OF i c, of e w] vid_thumb_path_absolute [OF i c, of e w]
    channel_thumb_path_eq [OF assms, of e] channel_banner_path_eq [OF assms, of e]
    playlist_thumb_path_eq [OF assms, of e]
  show ?thesis
    unfolding paths hd by (simp add: os_path_join_def)
qed

theorem C6_cache_paths_witness:
  "vid_thumb_path offline (ThumbManager ''DQw4w9WgXcQ'') False False empty_world =
     (Inr ''videos/d/DQw4w9WgXcQ.jpg'', empty_world) \<and>
   vid_thumb_path offline (ThumbManager ''DQw4w9WgXcQ'') True False empty_world =
     (Inr ''/cache/videos/d/DQw4w9WgXcQ.jpg'', empty_world) \<and>
   channel_thumb_path offline ''DQw4w9WgXcQ'' = ''/cache/channels/DQw4w9WgXcQ_thumb.jpg'' \<and>
   channel_banner_path offline ''DQw4w9WgXcQ'' = ''/cache/channels/DQw4w9WgXcQ_banner.jpg'' \<and>
   playlist_thumb_path offline ''DQw4w9WgXcQ'' = ''/cache/playlists/DQw4w9WgXcQ.jpg''"
proof -
  have nonempty: "item_id (ThumbManager ''DQw4w9WgXcQ'') \<noteq> []"
    by (simp add: ThumbManager_def)
  have no_slash: "hd (item_id (ThumbManager ''DQw4w9WgXcQ'')) \<noteq> CHR ''/''"
    by (simp add: ThumbManager_def)
  from C6_cache_paths [OF nonempty no_slash, of offline empty_world]
  show ?thesis
    by (simp add: ThumbManager_def offline_def os_path_join_def char_lower_eval)
qed

subsection \<open>The concrete networks\<close>

lemma serving_sel [simp]:
  "cache_dir (serving img) = ''/cache''"
  "app_root (serving img) = ''/app''"
  "http_get (serving img) = (\<lambda>url n. Response 200 (Some img))"
  by (simp_all add: serving_def)

lemma offline_sel [simp]:
  "cache_dir offline = ''/cache''"
  "app_root offline = ''/app''"
  "http_get offline = (\<lambda>url n. RequestException)"
  by (simp_all add: offline_def)


lemma offline_fetch:
  "u \<noteq> [] \<Longrightarrow> download_raw offline mgr (Some u) w =
     (Inr PyFalse,
      w\<lparr>requests := requests w @ [u, u, u],
        stdout := stdout w @ replicate 3 (item_id mgr @ '': retry thumbnail download '' @ u),
        sleeps := sleeps w @ [1, 2, 9]\<rparr>)"
  by (rule download_raw_all_fail) simp_all

lemma ancestors_d: "ancestors ''/cache/videos/d'' = [''/cache'', ''/cache/videos'']"
  by code_simp

lemmas run_eval =
  download_video_thumb_def vid_thumb_path_def ThumbManager_def Let_def
  download_channel_art_def download_channel_thumb_def download_channel_banner_def
  download_playlist_thumb_def channel_thumb_path_def channel_banner_path_def
  playlist_thumb_path_def CHANNEL_DIR_def PLAYLIST_DIR_def VIDEO_DIR_def CACHE_DIR_def
  os_path_join_def char_lower_eval os_path_exists_def os_makedirs_def ancestors_d
  fit_16_9_def image_save_def os_path_isdir_def os_path_dirname_def convert_RGB_def
  bundled_world_def

subsection \<open>The value False in the callers\<close>

text \<open>
  Claim C1 does not hold of the code. With every request failing, \<^verbatim>\<open>download_raw\<close>
  returns \<^verbatim>\<open>False\<close> and each caller goes on to use it as an image: the video and the
  playlist download raise \<^verbatim>\<open>AttributeError\<close>, and so does the icon step of
  \<^verbatim>\<open>download_channel_art\<close>, after which the banner is never requested.
\<close>

theorem C1_sentinel_raises:
  "fst (download_video_thumb offline (ThumbManager ''dQw4w9WgXcQ'')
          (Some ''https://i.ytimg.com/a.jpg'') False bundled_world) = Inl AttributeError \<and>
   fst (download_playlist_thumb offline (ThumbManager ''PLabc'')
          (Some ''https://i.ytimg.com/p.jpg'') False bundled_world) = Inl AttributeError \<and>
   fst (download_channel_art offline (ThumbManager ''UCabc'')
          (Some ''https://yt3.ggpht.com/icon'', Some ''https://yt3.ggpht.com/banner'') False
          bundled_world) = Inl AttributeError \<and>
   requests (snd (snd (download_channel_art offline (ThumbManager ''UCabc'')
          (Some ''https://yt3.ggpht.com/icon'', Some ''https://yt3.ggpht.com/banner'') False
          bundled_world))) =
     [''https://yt3.ggpht.com/icon'', ''https://yt3.ggpht.com/icon'', ''https://yt3.ggpht.com/icon'']"
  by (simp add: run_eval offline_fetch)

subsection \<open>Downloads only add to the file system\<close>









subsection \<open>The directory of a cache file\<close>



subsection \<open>Cropping to 16 : 9\<close>

lemma floor_rat_numeral: "\<lfloor>(numeral a :: rat) / numeral b\<rfloor> = numeral a div numeral b"
  by (metis floor_divide_of_int_eq of_int_numeral)

text \<open>
  The two sizes of the specification: 1000 x 2000 is cropped to the rows 719 to 1281, and
  1600 x 900 is kept.
\<close>

lemma fit_16_9_examples:
  "fit_16_9 (Image 1000 2000 px) = Inr (Image 1000 562 (Cropped 0 719 1000 1281 px))"
  "fit_16_9 (Image 1600 900 px) = Inr (Image 1600 900 px)"
  by (simp_all add: fit_16_9_def image_crop_def py_round_def Let_def floor_rat_numeral)

lemma py_round_of_int [simp]: "py_round (of_int n) = n"
  by (simp add: py_round_def)

lemma py_round_of_nat [simp]: "py_round (of_nat n) = int n"
  using py_round_of_int [of "int n"] by simp

lemma py_round_0 [simp]: "py_round 0 = 0"
  using py_round_of_int [of 0] by simp











subsection \<open>Skipping what exists\<close>

































end
